theory Spec2Isabelle
  imports Complex_Main
begin

section \<open>JavaScript values\<close>

text \<open>
  The datastore client (\<^verbatim>\<open>lib/datastore/index.js\<close>) moves JSON-shaped JavaScript values
  around: request bodies, response bodies, errors, keys and objects. They are modelled by
  one datatype. An object is an association list of its own properties, read with
  \<open>map_of\<close>. Numbers are only ever tested for truthiness by this module.
\<close>

datatype jsval =
    Undefined
  | Null
  | Bool bool
  | Num int
  | Str string
  | Arr "jsval list"
  | Obj "(string \<times> jsval) list"

text \<open>JavaScript's ToBoolean, as used by \<^verbatim>\<open>!err\<close>, \<^verbatim>\<open>!!err\<close>, \<^verbatim>\<open>a && b\<close> and \<^verbatim>\<open>if (x)\<close>.\<close>

fun truthy :: "jsval \<Rightarrow> bool" where
  "truthy Undefined = False"
| "truthy Null = False"
| "truthy (Bool b) = b"
| "truthy (Num n) = (n \<noteq> 0)"
| "truthy (Str s) = (s \<noteq> [])"
| "truthy (Arr xs) = True"
| "truthy (Obj ps) = True"

text \<open>
  Reading a data property \<^verbatim>\<open>v.p\<close> of a value that is neither \<^verbatim>\<open>undefined\<close> nor \<^verbatim>\<open>null\<close>:
  an object yields the stored value or \<^verbatim>\<open>undefined\<close>; arrays and primitives have none of
  the property names this module reads (\<^verbatim>\<open>error\<close>, \<^verbatim>\<open>found\<close>, \<^verbatim>\<open>entity\<close>, \<^verbatim>\<open>key\<close>).
\<close>

fun property :: "jsval \<Rightarrow> string \<Rightarrow> jsval" where
  "property (Obj ps) p = (case map_of ps p of None \<Rightarrow> Undefined | Some v \<Rightarrow> v)"
| "property v p = Undefined"

datatype exn = Error string | TypeError string

text \<open>Property access that throws on \<^verbatim>\<open>undefined\<close> and \<^verbatim>\<open>null\<close>, as the language does.\<close>

fun read_member :: "jsval \<Rightarrow> string \<Rightarrow> exn + jsval" where
  "read_member Undefined p = Inl (TypeError (''Cannot read property '' @ p @ '' of undefined''))"
| "read_member Null p = Inl (TypeError (''Cannot read property '' @ p @ '' of null''))"
| "read_member v p = Inr (property v p)"

section \<open>The transaction object, callbacks and pending requests\<close>

text \<open>
  \<^verbatim>\<open>function Transaction(conn, datasetId)\<close> creates an object with the fields
  \<^verbatim>\<open>conn\<close>, \<^verbatim>\<open>datasetId\<close>, \<^verbatim>\<open>id\<close> and \<^verbatim>\<open>isFinalized\<close>. The methods \<^verbatim>\<open>commit\<close>,
  \<^verbatim>\<open>rollback\<close> and \<^verbatim>\<open>finalize\<close> use a further property, \<^verbatim>\<open>finalized\<close>, which the
  constructor does not set: it reads as \<^verbatim>\<open>undefined\<close> until one of them assigns it.
  The connection is the external transport; a call of \<^verbatim>\<open>conn.req\<close> is recorded as a
  pending request together with the function that will receive the response.
\<close>

record txn =
  datasetId :: string
  id' :: jsval
  isFinalized :: bool
  finalized :: jsval

definition Transaction :: "string \<Rightarrow> txn" where
  "Transaction dsid = \<lparr>datasetId = dsid, id' = Null, isFinalized = False, finalized = Undefined\<rparr>"

text \<open>A caller's callback is either omitted (\<^verbatim>\<open>undefined\<close>) or a function, named by a number.\<close>

datatype callback = Omitted | Fn nat

type_synonym call = "nat \<times> jsval list"

text \<open>
  What running a response handler does: the transaction afterwards, the callback
  invocations made (function and argument list), and the exception thrown, if any.
\<close>

record reaction =
  after :: txn
  calls :: "call list"
  thrown :: "exn option"

text \<open>\<^verbatim>\<open>callback(args)\<close>: a TypeError when the callback was omitted.\<close>

fun invoke :: "callback \<Rightarrow> jsval list \<Rightarrow> txn \<Rightarrow> reaction" where
  "invoke Omitted args that =
     \<lparr>after = that, calls = [], thrown = Some (TypeError ''callback is not a function'')\<rparr>"
| "invoke (Fn f) args that = \<lparr>after = that, calls = [(f, args)], thrown = None\<rparr>"

text \<open>\<^verbatim>\<open>callback && callback(args)\<close>: nothing happens when the callback was omitted.\<close>

fun invoke_guarded :: "callback \<Rightarrow> jsval list \<Rightarrow> txn \<Rightarrow> reaction" where
  "invoke_guarded Omitted args that = \<lparr>after = that, calls = [], thrown = None\<rparr>"
| "invoke_guarded (Fn f) args that = \<lparr>after = that, calls = [(f, args)], thrown = None\<rparr>"

text \<open>The options object handed to \<^verbatim>\<open>conn.req\<close>.\<close>

record request =
  http_method :: string
  uri :: string
  json :: jsval

text \<open>
  A method-level handler is the \<^verbatim>\<open>function(err, resp)\<close> given to \<^verbatim>\<open>makeReq\<close>; a
  transport handler is the \<^verbatim>\<open>function(err, res, body)\<close> given to \<^verbatim>\<open>conn.req\<close>. Both run
  against the transaction as it is when the response arrives (\<^verbatim>\<open>that\<close> is a reference).
\<close>

type_synonym handler = "jsval \<Rightarrow> jsval \<Rightarrow> txn \<Rightarrow> reaction"

datatype pending =
  Pending (request: request) (respond: "jsval \<Rightarrow> jsval \<Rightarrow> jsval \<Rightarrow> txn \<Rightarrow> reaction")

text \<open>
  What a method does before it returns: the requests handed to the transport, the
  callbacks invoked synchronously, and the exception thrown to the caller, if any.
\<close>

record sync =
  sent :: "pending list"
  called :: "call list"
  raised :: "exn option"

text \<open>
  The transport answers the requests a method has sent: each one's handler runs with the
  transport's \<^verbatim>\<open>(err, res, body)\<close> against the transaction as it is then.
\<close>

definition deliver :: "sync \<Rightarrow> jsval \<Rightarrow> jsval \<Rightarrow> jsval \<Rightarrow> txn \<Rightarrow> reaction list" where
  "deliver s err res body that = map (\<lambda>p. respond p err res body that) (sent s)"

section \<open>The request sender\<close>

definition DATASTORE_BASE_URL :: string where
  "DATASTORE_BASE_URL = ''https://www.googleapis.com/datastore/v1beta2/datasets''"

definition MODE_NON_TRANSACTIONAL :: string where
  "MODE_NON_TRANSACTIONAL = ''NON_TRANSACTIONAL''"

definition MODE_TRANSACTIONAL :: string where
  "MODE_TRANSACTIONAL = ''TRANSACTIONAL''"

text \<open>The test \<^verbatim>\<open>body && body.error\<close> of \<^verbatim>\<open>makeReq\<close>'s transport handler.\<close>

definition carries_error :: "jsval \<Rightarrow> bool" where
  "carries_error body = (truthy body \<and> truthy (property body ''error''))"

definition makeReq :: "txn \<Rightarrow> string \<Rightarrow> jsval \<Rightarrow> handler \<Rightarrow> pending" where
  "makeReq this method req callback =
     Pending
       \<lparr>http_method = ''POST'',
        uri = DATASTORE_BASE_URL @ ''/'' @ datasetId this @ ''/'' @ method,
        json = req\<rparr>
       (\<lambda>err res body.
          if carries_error body then callback (property body ''error'') Null
          else callback err body)"

section \<open>Transaction lifecycle\<close>

definition begin' :: "txn \<Rightarrow> callback \<Rightarrow> sync" where
  "begin' this callback =
     \<lparr>sent = [makeReq this ''beginTransaction'' Null
         (\<lambda>err resp that.
            invoke_guarded callback [err]
              (if \<not> truthy err then that\<lparr>id' := resp\<rparr> else that))],
      called = [], raised = None\<rparr>"

definition rollback :: "txn \<Rightarrow> callback \<Rightarrow> sync" where
  "rollback this callback =
     \<lparr>sent = [makeReq this ''rollback'' (Obj [(''transaction'', id' this)])
         (\<lambda>err resp that.
            invoke_guarded callback [err] (that\<lparr>finalized := Bool (truthy err)\<rparr>))],
      called = [], raised = None\<rparr>"

definition commit :: "txn \<Rightarrow> callback \<Rightarrow> sync" where
  "commit this callback =
     \<lparr>sent = [makeReq this ''commit'' (Obj [(''transaction'', id' this)])
         (\<lambda>err resp that.
            invoke_guarded callback [err] (that\<lparr>finalized := Bool (truthy err)\<rparr>))],
      called = [], raised = None\<rparr>"

text \<open>
  \<^verbatim>\<open>finalize\<close> calls \<^verbatim>\<open>callback()\<close> without a guard when the flag is set; an exception
  thrown there reaches the caller of \<^verbatim>\<open>finalize\<close>.
\<close>

definition finalize :: "txn \<Rightarrow> callback \<Rightarrow> sync" where
  "finalize this callback =
     (if \<not> truthy (finalized this) then commit this callback
      else \<lparr>sent = [], called = calls (invoke callback [] this),
            raised = thrown (invoke callback [] this)\<rparr>)"

section \<open>The entity codec as a parameter\<close>

text \<open>
  \<^verbatim>\<open>entity = require('./entity.js')\<close> is a separate module. The transaction code only
  calls it, so the operations below take the module as a parameter: five functions,
  each of which may throw. \<^verbatim>\<open>entityToEntityProto\<close> returns an object (its property list),
  on which \<^verbatim>\<open>putAll\<close> then sets \<^verbatim>\<open>key\<close>.
\<close>

record entity_module =
  entity_keyToKeyProto :: "jsval \<Rightarrow> jsval \<Rightarrow> exn + jsval"
  entity_keyFromKeyProto :: "jsval \<Rightarrow> exn + jsval"
  entity_entityToEntityProto :: "jsval \<Rightarrow> exn + (string \<times> jsval) list"
  entity_entityFromEntityProto :: "jsval \<Rightarrow> exn + jsval"
  entity_isKeyComplete :: "jsval \<Rightarrow> exn + bool"

text \<open>
  \<^verbatim>\<open>getAll\<close> and \<^verbatim>\<open>delAll\<close> assign \<^verbatim>\<open>keysProto\<close> without declaring it, so it is a property
  of the global object. The function passed to \<^verbatim>\<open>keys.forEach\<close> is called without a
  receiver and the file is not in strict mode, so inside it \<^verbatim>\<open>this\<close> is the global
  object as well and \<^verbatim>\<open>this.id\<close> is the global property \<^verbatim>\<open>id\<close>.
\<close>

record global =
  global_id :: jsval
  keysProto :: "jsval list"

text \<open>
  \<^verbatim>\<open>keys.forEach(function(k) { keysProto.push(entity.keyToKeyProto(this.id, k)); })\<close>.
  An exception of the codec leaves the loop with the global array as far as it got.
\<close>

fun forEach_key :: "entity_module \<Rightarrow> global \<Rightarrow> jsval list \<Rightarrow> global \<times> exn option" where
  "forEach_key E g [] = (g, None)"
| "forEach_key E g (k # ks) =
     (case entity_keyToKeyProto E (global_id g) k of
        Inl x \<Rightarrow> (g, Some x)
      | Inr kp \<Rightarrow> forEach_key E (g\<lparr>keysProto := keysProto g @ [kp]\<rparr>) ks)"

section \<open>Batch operations\<close>

text \<open>The receiver of \<^verbatim>\<open>resp.found.forEach\<close> has to be an array.\<close>

fun forEach_receiver :: "jsval \<Rightarrow> exn + jsval list" where
  "forEach_receiver (Arr xs) = Inr xs"
| "forEach_receiver Undefined = Inl (TypeError ''Cannot read property forEach of undefined'')"
| "forEach_receiver Null = Inl (TypeError ''Cannot read property forEach of null'')"
| "forEach_receiver v = Inl (TypeError ''forEach is not a function'')"

fun forEach_found ::
  "entity_module \<Rightarrow> jsval list \<Rightarrow> jsval list \<Rightarrow> jsval list \<Rightarrow> exn + (jsval list \<times> jsval list)" where
  "forEach_found E [] keys results = Inr (keys, results)"
| "forEach_found E (f # fs) keys results =
     (case read_member f ''entity'' of Inl x \<Rightarrow> Inl x | Inr ent \<Rightarrow>
     (case read_member ent ''key'' of Inl x \<Rightarrow> Inl x | Inr kp \<Rightarrow>
     (case entity_keyFromKeyProto E kp of Inl x \<Rightarrow> Inl x | Inr k \<Rightarrow>
     (case entity_entityFromEntityProto E ent of Inl x \<Rightarrow> Inl x | Inr r \<Rightarrow>
        forEach_found E fs (keys @ [k]) (results @ [r])))))"

definition throw :: "exn \<Rightarrow> txn \<Rightarrow> reaction" where
  "throw x that = \<lparr>after = that, calls = [], thrown = Some x\<rparr>"

definition getAll_handler :: "entity_module \<Rightarrow> callback \<Rightarrow> handler" where
  "getAll_handler E callback err resp that =
     (if truthy err then invoke callback [err] that
      else
       (case read_member resp ''found'' of Inl x \<Rightarrow> throw x that | Inr found \<Rightarrow>
       (case forEach_receiver found of Inl x \<Rightarrow> throw x that | Inr fs \<Rightarrow>
       (case forEach_found E fs [] [] of Inl x \<Rightarrow> throw x that
        | Inr (keys, results) \<Rightarrow>
            invoke_guarded callback [Null, Arr keys, Arr results] that))))"

definition threw :: "exn \<Rightarrow> sync" where
  "threw x = \<lparr>sent = [], called = [], raised = Some x\<rparr>"

definition getAll ::
  "entity_module \<Rightarrow> global \<Rightarrow> txn \<Rightarrow> jsval list \<Rightarrow> callback \<Rightarrow> global \<times> sync" where
  "getAll E g this keys callback =
     (case forEach_key E (g\<lparr>keysProto := []\<rparr>) keys of
        (g', Some x) \<Rightarrow> (g', threw x)
      | (g', None) \<Rightarrow>
          (g', \<lparr>sent = [makeReq this ''lookup'' (Obj [(''keys'', Arr (keysProto g'))])
                         (getAll_handler E callback)],
                called = [], raised = None\<rparr>))"

text \<open>\<^verbatim>\<open>e.key = v\<close> on an object: replaces the property or appends it.\<close>

fun assign :: "(string \<times> jsval) list \<Rightarrow> string \<Rightarrow> jsval \<Rightarrow> (string \<times> jsval) list" where
  "assign [] p v = [(p, v)]"
| "assign ((q, w) # ps) p v = (if q = p then (p, v) # ps else (q, w) # assign ps p v)"

text \<open>
  The \<^verbatim>\<open>for\<close> loop of \<^verbatim>\<open>putAll\<close>, with the two buckets \<^verbatim>\<open>req.mutation.update\<close> and
  \<^verbatim>\<open>req.mutation.insertAutoId\<close> as accumulators. It runs over the indices of \<^verbatim>\<open>keys\<close>;
  \<^verbatim>\<open>objs[i]\<close> past the end of \<^verbatim>\<open>objs\<close> would read \<^verbatim>\<open>undefined\<close>.
\<close>

fun putAll_loop ::
  "entity_module \<Rightarrow> txn \<Rightarrow> jsval list \<Rightarrow> jsval list \<Rightarrow> jsval list \<Rightarrow> jsval list
     \<Rightarrow> exn + (jsval list \<times> jsval list)" where
  "putAll_loop E this [] objs update insertAutoId = Inr (update, insertAutoId)"
| "putAll_loop E this (k # ks) objs update insertAutoId =
     (case entity_entityToEntityProto E (case objs of [] \<Rightarrow> Undefined | ob # obs \<Rightarrow> ob) of
        Inl x \<Rightarrow> Inl x
      | Inr e \<Rightarrow>
     (case entity_keyToKeyProto E (id' this) k of
        Inl x \<Rightarrow> Inl x
      | Inr kp \<Rightarrow>
     (case entity_isKeyComplete E k of
        Inl x \<Rightarrow> Inl x
      | Inr is_complete \<Rightarrow>
          if is_complete
          then putAll_loop E this ks (tl objs) (update @ [Obj (assign e ''key'' kp)]) insertAutoId
          else putAll_loop E this ks (tl objs) update (insertAutoId @ [Obj (assign e ''key'' kp)]))))"

definition putAll ::
  "entity_module \<Rightarrow> txn \<Rightarrow> jsval list \<Rightarrow> jsval list \<Rightarrow> callback \<Rightarrow> sync" where
  "putAll E this keys objs callback =
     (if length keys \<noteq> length objs
      then threw (Error ''The length of the keys don't match the length of the objects'')
      else
        case putAll_loop E this keys objs [] [] of
          Inl x \<Rightarrow> threw x
        | Inr (update, insertAutoId) \<Rightarrow>
            \<lparr>sent = [makeReq this ''commit''
                       (Obj [(''mode'', Str MODE_NON_TRANSACTIONAL),
                             (''mutation'', Obj [(''update'', Arr update),
                                                 (''insertAutoId'', Arr insertAutoId)])])
                       (\<lambda>err resp that. invoke callback [err, resp] that)],
             called = [], raised = None\<rparr>)"

definition put :: "entity_module \<Rightarrow> txn \<Rightarrow> jsval \<Rightarrow> jsval \<Rightarrow> callback \<Rightarrow> sync" where
  "put E this key obj callback = putAll E this [key] [obj] callback"

definition delAll ::
  "entity_module \<Rightarrow> global \<Rightarrow> txn \<Rightarrow> jsval list \<Rightarrow> callback \<Rightarrow> global \<times> sync" where
  "delAll E g this keys callback =
     (case forEach_key E (g\<lparr>keysProto := []\<rparr>) keys of
        (g', Some x) \<Rightarrow> (g', threw x)
      | (g', None) \<Rightarrow>
          (g', \<lparr>sent = [makeReq this ''commit''
                          (Obj [(''mode'', Str MODE_NON_TRANSACTIONAL),
                                (''mutation'', Obj [(''delete'', Arr (keysProto g'))])])
                          (\<lambda>err resp that. invoke_guarded callback [err] that)],
                called = [], raised = None\<rparr>))"

definition del :: "entity_module \<Rightarrow> global \<Rightarrow> txn \<Rightarrow> jsval \<Rightarrow> callback \<Rightarrow> global \<times> sync" where
  "del E g this key callback = delAll E g this [key] callback"

definition runQuery :: "txn \<Rightarrow> jsval \<Rightarrow> callback \<Rightarrow> sync" where
  "runQuery this q callback = threw (Error ''not implemented'')"

section \<open>The dataset's allocateIds\<close>

text \<open>
  A \<^verbatim>\<open>Dataset\<close> holds its id and its default transaction, whose \<^verbatim>\<open>makeReq\<close> it uses.
  In \<^verbatim>\<open>allocateIds\<close> the receiver is the dataset, so \<^verbatim>\<open>this.id\<close> is the dataset id. The
  count \<^verbatim>\<open>n\<close> is an integer; the loop \<^verbatim>\<open>for (i = 0; i < n; i++)\<close> runs \<open>nat n\<close> times.
\<close>

record dataset =
  dataset_id :: string
  transaction :: txn

fun allocateIds_loop ::
  "entity_module \<Rightarrow> dataset \<Rightarrow> jsval \<Rightarrow> nat \<Rightarrow> jsval list \<Rightarrow> exn + jsval list" where
  "allocateIds_loop E this incompleteKey 0 incompleteKeys = Inr incompleteKeys"
| "allocateIds_loop E this incompleteKey (Suc m) incompleteKeys =
     (case entity_keyToKeyProto E (Str (dataset_id this)) incompleteKey of
        Inl x \<Rightarrow> Inl x
      | Inr kp \<Rightarrow> allocateIds_loop E this incompleteKey m (incompleteKeys @ [kp]))"

fun forEach_allocated :: "entity_module \<Rightarrow> jsval list \<Rightarrow> jsval list \<Rightarrow> exn + jsval list" where
  "forEach_allocated E [] keys = Inr keys"
| "forEach_allocated E (k # ks) keys =
     (case entity_keyFromKeyProto E k of
        Inl x \<Rightarrow> Inl x
      | Inr key \<Rightarrow> forEach_allocated E ks (keys @ [key]))"

definition allocateIds_handler :: "entity_module \<Rightarrow> callback \<Rightarrow> handler" where
  "allocateIds_handler E callback err resp that =
     (if truthy err then invoke callback [err] that
      else
       (case read_member resp ''keys'' of Inl x \<Rightarrow> throw x that | Inr ks \<Rightarrow>
       (case forEach_receiver ks of Inl x \<Rightarrow> throw x that | Inr ks' \<Rightarrow>
       (case forEach_allocated E ks' [] of Inl x \<Rightarrow> throw x that
        | Inr keys \<Rightarrow> invoke callback [Null, Arr keys] that))))"

definition allocateIds ::
  "entity_module \<Rightarrow> dataset \<Rightarrow> jsval \<Rightarrow> int \<Rightarrow> callback \<Rightarrow> sync" where
  "allocateIds E this incompleteKey n callback =
     (case entity_isKeyComplete E incompleteKey of
        Inl x \<Rightarrow> threw x
      | Inr is_complete \<Rightarrow>
          if is_complete then threw (Error ''An incomplete key should be provided.'')
          else
           (case allocateIds_loop E this incompleteKey (nat n) [] of
              Inl x \<Rightarrow> threw x
            | Inr incompleteKeys \<Rightarrow>
                \<lparr>sent = [makeReq (transaction this) ''allocateIds''
                           (Obj [(''keys'', Arr incompleteKeys)])
                           (allocateIds_handler E callback)],
                 called = [], raised = None\<rparr>))"

section \<open>Histories without a further begin\<close>

text \<open>
  \<open>since t t'\<close>: the transaction \<open>t'\<close> is what \<open>t\<close> has become after any number of
  responses to requests of \<^verbatim>\<open>commit\<close>, \<^verbatim>\<open>rollback\<close>, \<^verbatim>\<open>getAll\<close>, \<^verbatim>\<open>putAll\<close> and
  \<^verbatim>\<open>delAll\<close> (\<^verbatim>\<open>finalize\<close> sends what \<^verbatim>\<open>commit\<close> sends). The requests may have been issued
  at any earlier moment (\<open>t0\<close>), with any arguments, and receive any response.
\<close>

inductive since :: "txn \<Rightarrow> txn \<Rightarrow> bool" for t :: txn where
  since_now: "since t t"
| since_commit:
    "since t t1 \<Longrightarrow> p \<in> set (sent (commit t0 cb))
       \<Longrightarrow> since t (after (respond p err res body t1))"
| since_rollback:
    "since t t1 \<Longrightarrow> p \<in> set (sent (rollback t0 cb))
       \<Longrightarrow> since t (after (respond p err res body t1))"
| since_getAll:
    "since t t1 \<Longrightarrow> p \<in> set (sent (snd (getAll E g t0 keys cb)))
       \<Longrightarrow> since t (after (respond p err res body t1))"
| since_putAll:
    "since t t1 \<Longrightarrow> p \<in> set (sent (putAll E t0 keys objs cb))
       \<Longrightarrow> since t (after (respond p err res body t1))"
| since_delAll:
    "since t t1 \<Longrightarrow> p \<in> set (sent (snd (delAll E g t0 keys cb)))
       \<Longrightarrow> since t (after (respond p err res body t1))"

section \<open>A codec instance for concrete runs\<close>

text \<open>
  A small instance of the codec parameter, used to run the operations on concrete
  inputs. Its key proto shows the dataset-id argument it was called with, in the place
  where the v1beta2 KeyProto carries it (\<^verbatim>\<open>partitionId.datasetId\<close>); a key is an array and
  counts as complete when it holds no \<^verbatim>\<open>null\<close>.
\<close>

fun holds_no_null :: "jsval \<Rightarrow> bool" where
  "holds_no_null (Arr xs) = (Null \<notin> set xs)"
| "holds_no_null v = False"

definition plain_codec :: entity_module where
  "plain_codec =
     \<lparr>entity_keyToKeyProto =
        (\<lambda>d k. Inr (Obj [(''partitionId'', Obj [(''datasetId'', d)]), (''path'', k)])),
      entity_keyFromKeyProto = (\<lambda>p. Inr (property p ''path'')),
      entity_entityToEntityProto = (\<lambda>ob. Inr [(''property'', ob)]),
      entity_entityFromEntityProto = (\<lambda>p. Inr (property p ''property'')),
      entity_isKeyComplete = (\<lambda>k. Inr (holds_no_null k))\<rparr>"

section \<open>The entity codec of the design\<close>

text \<open>
  \<^verbatim>\<open>lib/datastore/entity.js\<close> defines the codec itself. The definitions of this section
  follow the design document's data model and codec contract (sections 3, 4.1 and 6).
\<close>

datatype ident = Id int | Name string | Absent

type_synonym key = "(string \<times> ident) list"

record path_element =
  kind :: string
  elem_id :: "int option"
  elem_name :: "string option"

record key_proto =
  partition_datasetId :: string
  path :: "path_element list"

datatype codec_error = ValidationError | EncodingError

fun incomplete :: "string \<times> ident \<Rightarrow> bool" where
  "incomplete (k, Absent) = True"
| "incomplete (k, i) = False"

fun segmentToElement :: "string \<times> ident \<Rightarrow> path_element" where
  "segmentToElement (k, Id n) = \<lparr>kind = k, elem_id = Some n, elem_name = None\<rparr>"
| "segmentToElement (k, Name s) = \<lparr>kind = k, elem_id = None, elem_name = Some s\<rparr>"
| "segmentToElement (k, Absent) = \<lparr>kind = k, elem_id = None, elem_name = None\<rparr>"

definition segmentFromElement :: "path_element \<Rightarrow> string \<times> ident" where
  "segmentFromElement e =
     (kind e,
      case elem_id e of Some n \<Rightarrow> Id n
      | None \<Rightarrow> (case elem_name e of Some s \<Rightarrow> Name s | None \<Rightarrow> Absent))"

text \<open>
  Modelled from the spec: \<^verbatim>\<open>isKeyComplete\<close> of \<^verbatim>\<open>lib/datastore/entity.js\<close>, which is not
  among the sources. "True iff no segment's identifier is absent."
\<close>

definition isKeyComplete :: "key \<Rightarrow> bool" where
  "isKeyComplete k = (filter incomplete k = [])"

text \<open>
  Modelled from the spec: \<^verbatim>\<open>keyToKeyProto\<close> of \<^verbatim>\<open>lib/datastore/entity.js\<close>, which is not
  among the sources. "Fails with ValidationError if datasetId is empty or key has more
  than one incomplete segment. Produces a proto with one path-element per key segment,
  each carrying kind and (id XOR name XOR neither, for the final incomplete segment)."
  The key is scoped to the dataset id at encode time, so the proto carries it.
\<close>

definition keyToKeyProto :: "string \<Rightarrow> key \<Rightarrow> codec_error + key_proto" where
  "keyToKeyProto dsid k =
     (if dsid = [] \<or> 1 < length (filter incomplete k) then Inl ValidationError
      else Inr \<lparr>partition_datasetId = dsid, path = map segmentToElement k\<rparr>)"

text \<open>
  Modelled from the spec: \<^verbatim>\<open>keyFromKeyProto\<close> of \<^verbatim>\<open>lib/datastore/entity.js\<close>, which is not
  among the sources. "Inverse; always succeeds for well-formed protos; the resulting key
  is complete iff every path element has id or name."
\<close>

definition keyFromKeyProto :: "key_proto \<Rightarrow> key" where
  "keyFromKeyProto p = map segmentFromElement (path p)"

text \<open>
  The local value model: a property value is a string, a number, a boolean, a timestamp
  (microseconds), a nested mapping or an array of values; \<open>LUndefined\<close> stands for every
  value of an unsupported type. A number is a rational here: the codec only asks whether
  it has a fractional part. The wire model has one constructor per value field;
  \<open>ListValue\<close> is the list of values sent with \<^verbatim>\<open>multi: true\<close>, \<open>NoValue\<close> a value object
  with no known field.
\<close>

datatype lvalue =
    LString string
  | LNumber rat
  | LBoolean bool
  | LTimestamp int
  | LMapping "(string \<times> lvalue) list"
  | LArray "lvalue list"
  | LUndefined

datatype pvalue =
    StringValue string
  | IntegerValue int
  | DoubleValue rat
  | BooleanValue bool
  | TimestampValue int
  | EntityValue "(string \<times> pvalue) list"
  | ListValue "pvalue list"
  | NoValue

text \<open>
  Modelled from the spec: the value typing of \<^verbatim>\<open>entityToEntityProto\<close> in
  \<^verbatim>\<open>lib/datastore/entity.js\<close>, which is not among the sources. "string\<rightarrow>stringValue,
  integer/number\<rightarrow>integerValue or doubleValue depending on fractional part,
  boolean\<rightarrow>booleanValue, nested mapping\<rightarrow>entityValue, array\<rightarrow>list of values with multi:
  true. Fails with EncodingError on unsupported property value types." The data model
  lists timestamps among the typed values; they travel in a field of their own.
\<close>

fun valueToProto :: "lvalue \<Rightarrow> codec_error + pvalue"
  and valuesToProto :: "lvalue list \<Rightarrow> codec_error + pvalue list"
  and propertiesToProto :: "(string \<times> lvalue) list \<Rightarrow> codec_error + (string \<times> pvalue) list" where
  "valueToProto (LString s) = Inr (StringValue s)"
| "valueToProto (LNumber r) =
     (if of_int \<lfloor>r\<rfloor> = r then Inr (IntegerValue \<lfloor>r\<rfloor>) else Inr (DoubleValue r))"
| "valueToProto (LBoolean b) = Inr (BooleanValue b)"
| "valueToProto (LTimestamp us) = Inr (TimestampValue us)"
| "valueToProto (LMapping ps) =
     (case propertiesToProto ps of Inl x \<Rightarrow> Inl x | Inr qs \<Rightarrow> Inr (EntityValue qs))"
| "valueToProto (LArray vs) =
     (case valuesToProto vs of Inl x \<Rightarrow> Inl x | Inr ws \<Rightarrow> Inr (ListValue ws))"
| "valueToProto LUndefined = Inl EncodingError"
| "valuesToProto [] = Inr []"
| "valuesToProto (v # vs) =
     (case valueToProto v of Inl x \<Rightarrow> Inl x | Inr w \<Rightarrow>
     (case valuesToProto vs of Inl x \<Rightarrow> Inl x | Inr ws \<Rightarrow> Inr (w # ws)))"
| "propertiesToProto [] = Inr []"
| "propertiesToProto ((n, v) # ps) =
     (case valueToProto v of Inl x \<Rightarrow> Inl x | Inr w \<Rightarrow>
     (case propertiesToProto ps of Inl x \<Rightarrow> Inl x | Inr qs \<Rightarrow> Inr ((n, w) # qs)))"

text \<open>
  Modelled from the spec: the typed extraction of \<^verbatim>\<open>entityFromEntityProto\<close> in
  \<^verbatim>\<open>lib/datastore/entity.js\<close>, which is not among the sources. "Inverse typed extraction;
  unknown/absent value fields decode to undefined/unset."
\<close>

fun valueFromProto :: "pvalue \<Rightarrow> lvalue"
  and valuesFromProto :: "pvalue list \<Rightarrow> lvalue list"
  and propertiesFromProto :: "(string \<times> pvalue) list \<Rightarrow> (string \<times> lvalue) list" where
  "valueFromProto (StringValue s) = LString s"
| "valueFromProto (IntegerValue i) = LNumber (of_int i)"
| "valueFromProto (DoubleValue r) = LNumber r"
| "valueFromProto (BooleanValue b) = LBoolean b"
| "valueFromProto (TimestampValue us) = LTimestamp us"
| "valueFromProto (EntityValue qs) = LMapping (propertiesFromProto qs)"
| "valueFromProto (ListValue ws) = LArray (valuesFromProto ws)"
| "valueFromProto NoValue = LUndefined"
| "valuesFromProto [] = []"
| "valuesFromProto (w # ws) = valueFromProto w # valuesFromProto ws"
| "propertiesFromProto [] = []"
| "propertiesFromProto ((n, w) # qs) = (n, valueFromProto w) # propertiesFromProto qs"

text \<open>
  Modelled from the spec: \<^verbatim>\<open>entityToEntityProto\<close> and \<^verbatim>\<open>entityFromEntityProto\<close> of
  \<^verbatim>\<open>lib/datastore/entity.js\<close>, which is not among the sources. An entity is a mapping
  from property name to value; its proto is the list \<^verbatim>\<open>property[]\<close> of name and typed
  value.
\<close>

definition entityToEntityProto :: "(string \<times> lvalue) list \<Rightarrow> codec_error + (string \<times> pvalue) list" where
  "entityToEntityProto e = propertiesToProto e"

definition entityFromEntityProto :: "(string \<times> pvalue) list \<Rightarrow> (string \<times> lvalue) list" where
  "entityFromEntityProto p = propertiesFromProto p"

text \<open>The values of supported type: everything but \<open>LUndefined\<close>, at every depth.\<close>

fun supported :: "lvalue \<Rightarrow> bool"
  and supported_all :: "lvalue list \<Rightarrow> bool"
  and supported_entity :: "(string \<times> lvalue) list \<Rightarrow> bool" where
  "supported (LMapping ps) = supported_entity ps"
| "supported (LArray vs) = supported_all vs"
| "supported LUndefined = False"
| "supported v = True"
| "supported_all [] = True"
| "supported_all (v # vs) = (supported v \<and> supported_all vs)"
| "supported_entity [] = True"
| "supported_entity ((n, v) # ps) = (supported v \<and> supported_entity ps)"

section \<open>Basic facts about handlers and requests\<close>

lemma after_invoke_guarded [simp]: "after (invoke_guarded cb args that) = that"
  by (cases cb) simp_all

lemma thrown_invoke_guarded [simp]: "thrown (invoke_guarded cb args that) = None"
  by (cases cb) simp_all

lemma after_invoke [simp]: "after (invoke cb args that) = that"
  by (cases cb) simp_all

lemma after_throw [simp]: "after (throw x that) = that"
  by (simp add: throw_def)

lemma after_getAll_handler [simp]: "after (getAll_handler E cb err resp that) = that"
  by (simp add: getAll_handler_def split: sum.splits prod.splits)

lemma carries_error_iff:
  "carries_error body \<longleftrightarrow> (\<exists>ps e. body = Obj ps \<and> map_of ps ''error'' = Some e \<and> truthy e)"
  by (cases body) (auto simp: carries_error_def split: option.splits)

lemma respond_makeReq:
  "respond (makeReq this m req h) err res body =
     (if carries_error body then h (property body ''error'') Null else h err body)"
  by (simp add: makeReq_def)

lemma request_makeReq:
  "request (makeReq this m req h) =
     \<lparr>http_method = ''POST'', uri = DATASTORE_BASE_URL @ ''/'' @ datasetId this @ ''/'' @ m,
      json = req\<rparr>"
  by (simp add: makeReq_def)

text \<open>
  What the method-level handlers see as \<^verbatim>\<open>err\<close> is the service error if the body carries
  one and the transport error otherwise; it is truthy exactly when either is.
\<close>

lemma begin_reaction:
  "deliver (begin' this cb) err res body that =
     [invoke_guarded cb [if carries_error body then property body ''error'' else err]
        (if carries_error body \<or> truthy err then that else that\<lparr>id' := body\<rparr>)]"
  by (auto simp: deliver_def begin'_def makeReq_def carries_error_def)

lemma commit_reaction:
  "deliver (commit this cb) err res body that =
     [invoke_guarded cb [if carries_error body then property body ''error'' else err]
        (that\<lparr>finalized := Bool (carries_error body \<or> truthy err)\<rparr>)]"
  by (auto simp: deliver_def commit_def makeReq_def carries_error_def)

lemma rollback_reaction:
  "deliver (rollback this cb) err res body that =
     [invoke_guarded cb [if carries_error body then property body ''error'' else err]
        (that\<lparr>finalized := Bool (carries_error body \<or> truthy err)\<rparr>)]"
  by (auto simp: deliver_def rollback_def makeReq_def carries_error_def)

lemma commit_request:
  "map request (sent (commit this cb)) =
     [\<lparr>http_method = ''POST'', uri = DATASTORE_BASE_URL @ ''/'' @ datasetId this @ ''/commit'',
       json = Obj [(''transaction'', id' this)]\<rparr>]"
  by (simp add: commit_def makeReq_def)

lemma rollback_request:
  "map request (sent (rollback this cb)) =
     [\<lparr>http_method = ''POST'', uri = DATASTORE_BASE_URL @ ''/'' @ datasetId this @ ''/rollback'',
       json = Obj [(''transaction'', id' this)]\<rparr>]"
  by (simp add: rollback_def makeReq_def)

lemma commit_returns:
  "called (commit this cb) = [] \<and> raised (commit this cb) = None"
  by (simp add: commit_def)

section \<open>Commit, rollback and finalize\<close>

text \<open>
  Both handlers store \<^verbatim>\<open>!!err\<close> in \<^verbatim>\<open>finalized\<close>: the flag is set after an error and
  cleared after a success. The error reaches the callback as it is.
\<close>

lemma commit_error_sets_finalized:
  "carries_error body \<or> truthy err \<Longrightarrow>
     map (\<lambda>r. finalized (after r)) (deliver (commit this cb) err res body that) = [Bool True]
     \<and> map (\<lambda>r. finalized (after r)) (deliver (rollback this cb) err res body that) = [Bool True]"
  by (simp add: commit_reaction rollback_reaction)

lemma commit_error_passed_through:
  "map calls (deliver (commit this (Fn f)) err res body that) =
     [ [(f, [if carries_error body then property body ''error'' else err])] ]
   \<and> map calls (deliver (rollback this (Fn f)) err res body that) =
     [ [(f, [if carries_error body then property body ''error'' else err])] ]"
  by (simp add: commit_reaction rollback_reaction)

text \<open>
  C1. After a commit or rollback whose request has been answered, the flag
  \<^verbatim>\<open>finalized\<close> should be true whether the answer was a success or an error. The code
  stores \<^verbatim>\<open>!!err\<close>: on a fresh transaction, a commit (or rollback) answered
  successfully, with no transport error and the body \<^verbatim>\<open>{}\<close>, leaves \<^verbatim>\<open>finalized\<close> false.
  The callback receives the (absent) error unchanged.
\<close>

theorem commit_success_leaves_finalized_false:
  "deliver (commit (Transaction ''s~abc'') (Fn 0)) Null Null (Obj []) (Transaction ''s~abc'') =
     [\<lparr>after = (Transaction ''s~abc'')\<lparr>finalized := Bool False\<rparr>,
       calls = [(0, [Null])], thrown = None\<rparr>]
   \<and> deliver (rollback (Transaction ''s~abc'') (Fn 0)) Null Null (Obj []) (Transaction ''s~abc'') =
     [\<lparr>after = (Transaction ''s~abc'')\<lparr>finalized := Bool False\<rparr>,
       calls = [(0, [Null])], thrown = None\<rparr>]"
  by (simp add: commit_reaction rollback_reaction carries_error_def)

text \<open>
  \<^verbatim>\<open>finalize\<close> on a transaction whose flag is set calls back at once, with no argument
  and without a request; otherwise it is \<^verbatim>\<open>commit\<close>.
\<close>

lemma finalize_when_flag_set:
  "truthy (finalized this) \<Longrightarrow>
     finalize this (Fn f) = \<lparr>sent = [], called = [(f, [])], raised = None\<rparr>"
  by (simp add: finalize_def)

lemma finalize_when_flag_clear:
  "\<not> truthy (finalized this) \<Longrightarrow> finalize this cb = commit this cb"
  by (simp add: finalize_def)

text \<open>
  C2. \<^verbatim>\<open>finalize(cb)\<close> on a finalized transaction, in particular a second \<^verbatim>\<open>finalize\<close>
  after a successful commit, should call \<^verbatim>\<open>cb()\<close> at once and send nothing. In the code
  a successful commit leaves the flag false, so the \<^verbatim>\<open>finalize\<close> that follows it sends a
  second commit request and calls nothing back before the response.
\<close>

theorem finalize_after_successful_commit_sends_again:
  "map after
     (deliver (finalize (Transaction ''s~abc'') (Fn 0)) Null Null (Obj []) (Transaction ''s~abc''))
     = [(Transaction ''s~abc'')\<lparr>finalized := Bool False\<rparr>]
   \<and> map request (sent (finalize ((Transaction ''s~abc'')\<lparr>finalized := Bool False\<rparr>) (Fn 1))) =
       [\<lparr>http_method = ''POST'',
         uri = ''https://www.googleapis.com/datastore/v1beta2/datasets/s~abc/commit'',
         json = Obj [(''transaction'', Null)]\<rparr>]
   \<and> called (finalize ((Transaction ''s~abc'')\<lparr>finalized := Bool False\<rparr>) (Fn 1)) = []"
  by (simp add: finalize_def commit_reaction commit_request commit_returns carries_error_def
                Transaction_def DATASTORE_BASE_URL_def)

section \<open>The request sender's error precedence\<close>

text \<open>
  C8. For every \<^verbatim>\<open>makeReq\<close> call: if the decoded response body carries an error (it is
  an object whose \<^verbatim>\<open>error\<close> property is truthy), the callback is invoked with
  \<^verbatim>\<open>(body.error, null)\<close>, whatever the transport reported, also no error at all;
  otherwise the callback is invoked with the transport's error and the body.
\<close>

theorem makeReq_service_error_first:
  "(carries_error body \<longrightarrow>
      respond (makeReq this m req cb) err res body = cb (property body ''error'') Null)
   \<and> (\<not> carries_error body \<longrightarrow> respond (makeReq this m req cb) err res body = cb err body)
   \<and> (carries_error body \<longleftrightarrow>
        (\<exists>ps e. body = Obj ps \<and> map_of ps ''error'' = Some e \<and> truthy e))"
proof (intro conjI)
  show "carries_error body \<longrightarrow>
      respond (makeReq this m req cb) err res body = cb (property body ''error'') Null"
    by (simp add: respond_makeReq)
  show "\<not> carries_error body \<longrightarrow> respond (makeReq this m req cb) err res body = cb err body"
    by (simp add: respond_makeReq)
  show "carries_error body \<longleftrightarrow>
        (\<exists>ps e. body = Obj ps \<and> map_of ps ''error'' = Some e \<and> truthy e)"
    by (rule carries_error_iff)
qed

theorem makeReq_service_error_first_witness:
  "carries_error (Obj [(''error'', Str ''quota'')])
   \<and> respond (makeReq (Transaction ''s~abc'') ''lookup'' Null (\<lambda>e r. invoke (Fn 0) [e, r]))
        Null Null (Obj [(''error'', Str ''quota'')]) (Transaction ''s~abc'')
       = \<lparr>after = Transaction ''s~abc'', calls = [(0, [Str ''quota'', Null])], thrown = None\<rparr>
   \<and> \<not> carries_error (Obj [(''found'', Arr [])])
   \<and> respond (makeReq (Transaction ''s~abc'') ''lookup'' Null (\<lambda>e r. invoke (Fn 0) [e, r]))
        (Str ''reset'') Null (Obj [(''found'', Arr [])]) (Transaction ''s~abc'')
       = \<lparr>after = Transaction ''s~abc'',
          calls = [(0, [Str ''reset'', Obj [(''found'', Arr [])]])], thrown = None\<rparr>"
  using makeReq_service_error_first [of "Obj [(''error'', Str ''quota'')]" "Transaction ''s~abc''"
          "''lookup''" Null "\<lambda>e r. invoke (Fn 0) [e, r]" Null Null]
        makeReq_service_error_first [of "Obj [(''found'', Arr [])]" "Transaction ''s~abc''"
          "''lookup''" Null "\<lambda>e r. invoke (Fn 0) [e, r]" "Str ''reset''" Null]
  by (simp add: carries_error_def)

section \<open>The transaction id\<close>

text \<open>None of the responses counted by \<open>since\<close> touches the id.\<close>

lemma since_id: "since t t' \<Longrightarrow> id' t' = id' t"
proof (induction rule: since.induct)
  case since_now
  show ?case by simp
next
  case (since_commit t1 p t0 cb err res body)
  then show ?case by (auto simp: commit_def makeReq_def)
next
  case (since_rollback t1 p t0 cb err res body)
  then show ?case by (auto simp: rollback_def makeReq_def)
next
  case (since_getAll t1 p E g t0 keys cb err res body)
  then show ?case
    by (auto simp: getAll_def makeReq_def threw_def split: prod.splits option.splits)
next
  case (since_putAll t1 p E t0 keys objs cb err res body)
  then show ?case
    by (auto simp: putAll_def makeReq_def threw_def split: if_splits sum.splits prod.splits)
next
  case (since_delAll t1 p E g t0 keys cb err res body)
  then show ?case
    by (auto simp: delAll_def makeReq_def threw_def split: prod.splits option.splits)
qed

text \<open>
  C9. After a successful \<^verbatim>\<open>begin()\<close> (no service error in the body, no transport error)
  the id is the whole response body, and every later \<^verbatim>\<open>commit\<close> or \<^verbatim>\<open>rollback\<close>, after
  any responses to other operations, sends that body as the request's \<^verbatim>\<open>transaction\<close>
  property. After a failed \<^verbatim>\<open>begin()\<close> the id is what it was: \<^verbatim>\<open>null\<close> on a new
  transaction.
\<close>

theorem begin_keeps_whole_body:
  "(\<not> carries_error body \<and> \<not> truthy err \<longrightarrow>
      map (\<lambda>r. id' (after r)) (deliver (begin' this cb) err res body that) = [body]
      \<and> (\<forall>r t'. r \<in> set (deliver (begin' this cb) err res body that) \<and> since (after r) t' \<longrightarrow>
            map (\<lambda>p. json (request p)) (sent (commit t' cb')) = [Obj [(''transaction'', body)]]
          \<and> map (\<lambda>p. json (request p)) (sent (rollback t' cb')) = [Obj [(''transaction'', body)]]))
   \<and> (carries_error body \<or> truthy err \<longrightarrow>
      map (\<lambda>r. id' (after r)) (deliver (begin' this cb) err res body that) = [id' that]
      \<and> map (\<lambda>r. id' (after r))
          (deliver (begin' (Transaction d) cb) err res body (Transaction d)) = [Null])"
proof (intro conjI impI allI)
  assume ok: "\<not> carries_error body \<and> \<not> truthy err"
  then show "map (\<lambda>r. id' (after r)) (deliver (begin' this cb) err res body that) = [body]"
    by (simp add: begin_reaction)
  fix r t'
  assume "r \<in> set (deliver (begin' this cb) err res body that) \<and> since (after r) t'"
  with ok have "id' t' = body"
    using since_id [of "after r" t'] by (auto simp: begin_reaction)
  then show "map (\<lambda>p. json (request p)) (sent (commit t' cb')) = [Obj [(''transaction'', body)]]"
    and "map (\<lambda>p. json (request p)) (sent (rollback t' cb')) = [Obj [(''transaction'', body)]]"
    by (simp_all add: commit_def rollback_def makeReq_def)
next
  assume failed: "carries_error body \<or> truthy err"
  then show "map (\<lambda>r. id' (after r)) (deliver (begin' this cb) err res body that) = [id' that]"
    by (auto simp: begin_reaction)
  from failed show "map (\<lambda>r. id' (after r))
      (deliver (begin' (Transaction d) cb) err res body (Transaction d)) = [Null]"
    by (auto simp: begin_reaction Transaction_def)
qed

text \<open>A response to a commit is one step of \<open>since\<close>.\<close>

lemma since_example:
  "since ((Transaction ''s~abc'')\<lparr>id' := B\<rparr>)
         ((Transaction ''s~abc'')\<lparr>id' := B, finalized := Bool False\<rparr>)"
proof -
  have "since ((Transaction ''s~abc'')\<lparr>id' := B\<rparr>)
          (after (respond (makeReq (Transaction ''s~abc'') ''commit'' (Obj [(''transaction'', id' (Transaction ''s~abc''))])
         (\<lambda>err resp that.
            invoke_guarded (Fn 0) [err] (that\<lparr>finalized := Bool (truthy err)\<rparr>))) Null Null (Obj []) ((Transaction ''s~abc'')\<lparr>id' := B\<rparr>)))"
    by (rule since_commit [OF since_now, of _ "Transaction ''s~abc''" "Fn 0"]) (simp add: commit_def)
  then show ?thesis by (simp add: respond_makeReq carries_error_def)
qed

theorem begin_keeps_whole_body_witness:
  "\<not> carries_error (Obj [(''transaction'', Str ''tx1'')]) \<and> \<not> truthy Null
   \<and> deliver (begin' (Transaction ''s~abc'') (Fn 0)) Null Null
        (Obj [(''transaction'', Str ''tx1'')]) (Transaction ''s~abc'')
      = [\<lparr>after = (Transaction ''s~abc'')\<lparr>id' := Obj [(''transaction'', Str ''tx1'')]\<rparr>,
          calls = [(0, [Null])], thrown = None\<rparr>]
   \<and> since ((Transaction ''s~abc'')\<lparr>id' := Obj [(''transaction'', Str ''tx1'')]\<rparr>)
        ((Transaction ''s~abc'')\<lparr>id' := Obj [(''transaction'', Str ''tx1'')],
                                  finalized := Bool False\<rparr>)
   \<and> map (\<lambda>p. json (request p))
       (sent (commit ((Transaction ''s~abc'')\<lparr>id' := Obj [(''transaction'', Str ''tx1'')],
                                               finalized := Bool False\<rparr>) (Fn 1)))
      = [Obj [(''transaction'', Obj [(''transaction'', Str ''tx1'')])]]
   \<and> map (\<lambda>p. json (request p))
       (sent (rollback ((Transaction ''s~abc'')\<lparr>id' := Obj [(''transaction'', Str ''tx1'')],
                                                 finalized := Bool False\<rparr>) (Fn 1)))
      = [Obj [(''transaction'', Obj [(''transaction'', Str ''tx1'')])]]
   \<and> truthy (Str ''reset'')
   \<and> map (\<lambda>r. id' (after r))
       (deliver (begin' (Transaction ''s~abc'') (Fn 0)) (Str ''reset'') Null Undefined
          (Transaction ''s~abc'')) = [Null]"
proof -
  let ?B = "Obj [(''transaction'', Str ''tx1'')]"
  let ?T = "Transaction ''s~abc''"
  have ok: "\<not> carries_error ?B \<and> \<not> truthy Null"
    by (simp add: carries_error_def)
  have bad: "carries_error Undefined \<or> truthy (Str ''reset'')"
    by simp
  have later: "since (?T\<lparr>id' := ?B\<rparr>) (?T\<lparr>id' := ?B, finalized := Bool False\<rparr>)"
    by (rule since_example)
  have d: "deliver (begin' ?T (Fn 0)) Null Null ?B ?T =
             [\<lparr>after = ?T\<lparr>id' := ?B\<rparr>, calls = [(0, [Null])], thrown = None\<rparr>]"
    using ok by (simp add: begin_reaction)
  from begin_keeps_whole_body [of ?B Null ?T "Fn 0" Null ?T "Fn 1" "''s~abc''"] ok
  have "\<forall>r t'. r \<in> set (deliver (begin' ?T (Fn 0)) Null Null ?B ?T) \<and> since (after r) t' \<longrightarrow>
            map (\<lambda>p. json (request p)) (sent (commit t' (Fn 1))) = [Obj [(''transaction'', ?B)]]
          \<and> map (\<lambda>p. json (request p)) (sent (rollback t' (Fn 1))) = [Obj [(''transaction'', ?B)]]"
    by blast
  with d later
  have c: "map (\<lambda>p. json (request p)) (sent (commit (?T\<lparr>id' := ?B, finalized := Bool False\<rparr>) (Fn 1)))
             = [Obj [(''transaction'', ?B)]]
         \<and> map (\<lambda>p. json (request p)) (sent (rollback (?T\<lparr>id' := ?B, finalized := Bool False\<rparr>) (Fn 1)))
             = [Obj [(''transaction'', ?B)]]"
    by simp
  from begin_keeps_whole_body [of Undefined "Str ''reset''" ?T "Fn 0" Null ?T "Fn 1" "''s~abc''"] bad
  have f: "map (\<lambda>r. id' (after r))
       (deliver (begin' ?T (Fn 0)) (Str ''reset'') Null Undefined ?T) = [Null]"
    by blast
  from ok d later c f show ?thesis by simp
qed

section \<open>Mutation requests\<close>

lemma putAll_mode:
  "p \<in> set (sent (putAll E this keys objs cb)) \<Longrightarrow>
     property (json (request p)) ''mode'' = Str ''NON_TRANSACTIONAL''"
  by (auto simp: putAll_def threw_def makeReq_def MODE_NON_TRANSACTIONAL_def
           split: if_splits sum.splits prod.splits)

lemma delAll_mode:
  "p \<in> set (sent (snd (delAll E g this keys cb))) \<Longrightarrow>
     property (json (request p)) ''mode'' = Str ''NON_TRANSACTIONAL''"
  by (auto simp: delAll_def threw_def makeReq_def MODE_NON_TRANSACTIONAL_def
           split: option.splits prod.splits)

lemma delAll_single:
  assumes "entity_keyToKeyProto E (global_id g) k1 = Inr k1Proto"
  shows "delAll E g this [k1] cb =
    (g\<lparr>keysProto := [k1Proto]\<rparr>,
     \<lparr>sent = [makeReq this ''commit''
                (Obj [(''mode'', Str MODE_NON_TRANSACTIONAL),
                      (''mutation'', Obj [(''delete'', Arr [k1Proto])])])
                (\<lambda>err resp that. invoke_guarded cb [err] that)],
      called = [], raised = None\<rparr>)"
  using assms by (simp add: delAll_def)

text \<open>
  C4. Every request sent by \<^verbatim>\<open>putAll\<close> or \<^verbatim>\<open>delAll\<close> carries the mode
  \<^verbatim>\<open>NON_TRANSACTIONAL\<close>, whatever the state of the transaction. In particular
  \<^verbatim>\<open>delAll([k1], cb)\<close>, where the codec encodes \<^verbatim>\<open>k1\<close> as \<^verbatim>\<open>k1Proto\<close>, sends exactly one
  \<^verbatim>\<open>commit\<close> request with the body
  \<^verbatim>\<open>{mode: 'NON_TRANSACTIONAL', mutation: {delete: [k1Proto]}}\<close>, calls nothing and throws
  nothing before it returns, and on the response calls \<^verbatim>\<open>cb\<close> with the error as its only
  argument.
\<close>

theorem mutations_are_non_transactional:
  "(\<forall>p \<in> set (sent (putAll E this keys objs cb)).
      property (json (request p)) ''mode'' = Str ''NON_TRANSACTIONAL'')
   \<and> (\<forall>p \<in> set (sent (snd (delAll E g this keys cb))).
      property (json (request p)) ''mode'' = Str ''NON_TRANSACTIONAL'')
   \<and> (entity_keyToKeyProto E (global_id g) k1 = Inr k1Proto \<longrightarrow>
        map request (sent (snd (delAll E g this [k1] cb))) =
          [\<lparr>http_method = ''POST'',
            uri = DATASTORE_BASE_URL @ ''/'' @ datasetId this @ ''/commit'',
            json = Obj [(''mode'', Str ''NON_TRANSACTIONAL''),
                        (''mutation'', Obj [(''delete'', Arr [k1Proto])])]\<rparr>]
        \<and> called (snd (delAll E g this [k1] cb)) = []
        \<and> raised (snd (delAll E g this [k1] cb)) = None
        \<and> deliver (snd (delAll E g this [k1] cb)) err res body that =
            [invoke_guarded cb [if carries_error body then property body ''error'' else err] that])"
proof (intro conjI ballI impI)
  fix p assume "p \<in> set (sent (putAll E this keys objs cb))"
  then show "property (json (request p)) ''mode'' = Str ''NON_TRANSACTIONAL''"
    by (rule putAll_mode)
next
  fix p assume "p \<in> set (sent (snd (delAll E g this keys cb)))"
  then show "property (json (request p)) ''mode'' = Str ''NON_TRANSACTIONAL''"
    by (rule delAll_mode)
next
  assume k1: "entity_keyToKeyProto E (global_id g) k1 = Inr k1Proto"
  note d = delAll_single [OF k1, of this cb]
  show "map request (sent (snd (delAll E g this [k1] cb))) =
          [\<lparr>http_method = ''POST'',
            uri = DATASTORE_BASE_URL @ ''/'' @ datasetId this @ ''/commit'',
            json = Obj [(''mode'', Str ''NON_TRANSACTIONAL''),
                        (''mutation'', Obj [(''delete'', Arr [k1Proto])])]\<rparr>]"
    by (simp add: d request_makeReq MODE_NON_TRANSACTIONAL_def)
  show "called (snd (delAll E g this [k1] cb)) = []" by (simp add: d)
  show "raised (snd (delAll E g this [k1] cb)) = None" by (simp add: d)
  show "deliver (snd (delAll E g this [k1] cb)) err res body that =
            [invoke_guarded cb [if carries_error body then property body ''error'' else err] that]"
    by (simp add: d deliver_def respond_makeReq)
qed

theorem mutations_are_non_transactional_witness:
  "entity_keyToKeyProto plain_codec (global_id \<lparr>global_id = Undefined, keysProto = []\<rparr>)
       (Arr [Str ''Kind'', Num 1])
     = Inr (Obj [(''partitionId'', Obj [(''datasetId'', Undefined)]),
                 (''path'', Arr [Str ''Kind'', Num 1])])
   \<and> map (\<lambda>p. property (json (request p)) ''mode'')
       (sent (putAll plain_codec ((Transaction ''s~abc'')\<lparr>id' := Obj [(''transaction'', Str ''tx1'')]\<rparr>)
                [Arr [Str ''Kind'', Num 1]] [Obj [(''a'', Num 2)]] (Fn 0)))
     = [Str ''NON_TRANSACTIONAL'']
   \<and> map request
       (sent (snd (delAll plain_codec \<lparr>global_id = Undefined, keysProto = []\<rparr>
                ((Transaction ''s~abc'')\<lparr>id' := Obj [(''transaction'', Str ''tx1'')]\<rparr>)
                [Arr [Str ''Kind'', Num 1]] (Fn 0))))
     = [\<lparr>http_method = ''POST'',
         uri = ''https://www.googleapis.com/datastore/v1beta2/datasets/s~abc/commit'',
         json = Obj [(''mode'', Str ''NON_TRANSACTIONAL''),
                     (''mutation'',
                      Obj [(''delete'',
                            Arr [Obj [(''partitionId'', Obj [(''datasetId'', Undefined)]),
                                      (''path'', Arr [Str ''Kind'', Num 1])]])])]\<rparr>]
   \<and> map calls
       (deliver (snd (delAll plain_codec \<lparr>global_id = Undefined, keysProto = []\<rparr>
                  ((Transaction ''s~abc'')\<lparr>id' := Obj [(''transaction'', Str ''tx1'')]\<rparr>)
                  [Arr [Str ''Kind'', Num 1]] (Fn 0)))
          (Str ''reset'') Null Undefined
          ((Transaction ''s~abc'')\<lparr>id' := Obj [(''transaction'', Str ''tx1'')]\<rparr>))
     = [ [(0, [Str ''reset''])] ]"
proof -
  let ?g = "\<lparr>global_id = Undefined, keysProto = []\<rparr>"
  let ?k = "Arr [Str ''Kind'', Num 1]"
  let ?kp = "Obj [(''partitionId'', Obj [(''datasetId'', Undefined)]), (''path'', ?k)]"
  let ?T = "(Transaction ''s~abc'')\<lparr>id' := Obj [(''transaction'', Str ''tx1'')]\<rparr>"
  have enc: "entity_keyToKeyProto plain_codec (global_id ?g) ?k = Inr ?kp"
    by (simp add: plain_codec_def)
  have nonempty: "sent (putAll plain_codec ?T [?k] [Obj [(''a'', Num 2)]] (Fn 0)) \<noteq> []"
    by (simp add: putAll_def plain_codec_def)
  note inst = mutations_are_non_transactional
    [where E = plain_codec and g = ?g and this = ?T and keys = "[?k]"
       and objs = "[Obj [(''a'', Num 2)]]" and cb = "Fn 0" and ?k1.0 = ?k and ?k1Proto.0 = ?kp
       and err = "Str ''reset''" and res = Null and body = Undefined and that = ?T]
  from inst have m: "\<forall>p \<in> set (sent (putAll plain_codec ?T [?k] [Obj [(''a'', Num 2)]] (Fn 0))).
      property (json (request p)) ''mode'' = Str ''NON_TRANSACTIONAL''"
    by blast
  have one: "length (sent (putAll plain_codec ?T [?k] [Obj [(''a'', Num 2)]] (Fn 0))) = 1"
    by (simp add: putAll_def plain_codec_def)
  from m one have modes: "map (\<lambda>p. property (json (request p)) ''mode'')
       (sent (putAll plain_codec ?T [?k] [Obj [(''a'', Num 2)]] (Fn 0))) = [Str ''NON_TRANSACTIONAL'']"
    by (cases "sent (putAll plain_codec ?T [?k] [Obj [(''a'', Num 2)]] (Fn 0))") auto
  from inst enc have del:
    "map request (sent (snd (delAll plain_codec ?g ?T [?k] (Fn 0)))) =
          [\<lparr>http_method = ''POST'',
            uri = DATASTORE_BASE_URL @ ''/'' @ datasetId ?T @ ''/commit'',
            json = Obj [(''mode'', Str ''NON_TRANSACTIONAL''),
                        (''mutation'', Obj [(''delete'', Arr [?kp])])]\<rparr>]
     \<and> deliver (snd (delAll plain_codec ?g ?T [?k] (Fn 0))) (Str ''reset'') Null Undefined ?T =
            [invoke_guarded (Fn 0)
               [if carries_error Undefined then property Undefined ''error'' else Str ''reset''] ?T]"
    by blast
  from enc modes del show ?thesis
    by (simp add: DATASTORE_BASE_URL_def Transaction_def carries_error_def)
qed

text \<open>
  C6. When \<^verbatim>\<open>keys\<close> and \<^verbatim>\<open>objs\<close> differ in length, \<^verbatim>\<open>putAll\<close> throws to its caller: it
  sends no request and calls nothing, so no response can ever reach the callback.
\<close>

theorem putAll_length_mismatch_throws:
  "length keys \<noteq> length objs \<Longrightarrow>
     sent (putAll E this keys objs cb) = []
     \<and> called (putAll E this keys objs cb) = []
     \<and> raised (putAll E this keys objs cb) =
         Some (Error ''The length of the keys don't match the length of the objects'')
     \<and> deliver (putAll E this keys objs cb) err res body that = []"
  by (simp add: putAll_def threw_def deliver_def)

theorem putAll_length_mismatch_throws_witness:
  "length [Arr [Str ''Kind'', Num 1], Arr [Str ''Kind'', Num 2]] \<noteq> length [Obj [(''a'', Num 2)]]
   \<and> putAll plain_codec (Transaction ''s~abc'')
       [Arr [Str ''Kind'', Num 1], Arr [Str ''Kind'', Num 2]] [Obj [(''a'', Num 2)]] (Fn 0)
     = \<lparr>sent = [], called = [],
        raised = Some (Error ''The length of the keys don't match the length of the objects'')\<rparr>"
  using putAll_length_mismatch_throws
    [of "[Arr [Str ''Kind'', Num 1], Arr [Str ''Kind'', Num 2]]" "[Obj [(''a'', Num 2)]]"
        plain_codec "Transaction ''s~abc''" "Fn 0" Null Null Null "Transaction ''s~abc''"]
  by simp

section \<open>putAll's buckets\<close>

lemma putAll_loop_buckets:
  assumes "length keys = length objs"
    and "\<forall>ob\<in>set objs. entity_entityToEntityProto E ob = Inr (enc ob)"
    and "\<forall>k\<in>set keys. entity_keyToKeyProto E (id' this) k = Inr (kenc k)"
    and "\<forall>k\<in>set keys. entity_isKeyComplete E k = Inr (cmpl k)"
  shows "putAll_loop E this keys objs upd ins =
           Inr (upd @ map (\<lambda>(k, ob). Obj (assign (enc ob) ''key'' (kenc k)))
                        (filter (\<lambda>(k, ob). cmpl k) (zip keys objs)),
                ins @ map (\<lambda>(k, ob). Obj (assign (enc ob) ''key'' (kenc k)))
                        (filter (\<lambda>(k, ob). \<not> cmpl k) (zip keys objs)))"
  using assms
proof (induction keys objs arbitrary: upd ins rule: list_induct2)
  case Nil
  show ?case by simp
next
  case (Cons k ks ob obs)
  then show ?case by simp
qed

text \<open>An exception of the codec inside the loop leaves \<^verbatim>\<open>putAll\<close> before anything is sent.\<close>

lemma putAll_codec_exception:
  "length keys = length objs \<Longrightarrow> putAll_loop E this keys objs [] [] = Inl x \<Longrightarrow>
     putAll E this keys objs cb = threw x"
  by (simp add: putAll_def)

text \<open>
  C7. For \<^verbatim>\<open>keys\<close> and \<^verbatim>\<open>objs\<close> of equal length that the codec encodes (\<open>enc\<close>, \<open>kenc\<close>
  and \<open>cmpl\<close> name its results), \<^verbatim>\<open>putAll\<close> sends exactly one \<^verbatim>\<open>commit\<close> request with mode
  \<^verbatim>\<open>NON_TRANSACTIONAL\<close> and both buckets: \<^verbatim>\<open>update\<close> holds, in order, the encoded entities
  whose key is complete, \<^verbatim>\<open>insertAutoId\<close> those whose key is not, each with its encoded
  key set. On the response the callback receives what the request sender delivers,
  undecoded: the transport's error and the body itself, or the body's error and \<^verbatim>\<open>null\<close>
  when the body carries an error.
\<close>

theorem putAll_partitions_by_completeness:
  assumes "length keys = length objs"
    and "\<forall>ob\<in>set objs. entity_entityToEntityProto E ob = Inr (enc ob)"
    and "\<forall>k\<in>set keys. entity_keyToKeyProto E (id' this) k = Inr (kenc k)"
    and "\<forall>k\<in>set keys. entity_isKeyComplete E k = Inr (cmpl k)"
  shows "map request (sent (putAll E this keys objs cb)) =
           [\<lparr>http_method = ''POST'',
             uri = DATASTORE_BASE_URL @ ''/'' @ datasetId this @ ''/commit'',
             json = Obj [(''mode'', Str ''NON_TRANSACTIONAL''),
                         (''mutation'',
                          Obj [(''update'',
                                Arr (map (\<lambda>(k, ob). Obj (assign (enc ob) ''key'' (kenc k)))
                                      (filter (\<lambda>(k, ob). cmpl k) (zip keys objs)))),
                               (''insertAutoId'',
                                Arr (map (\<lambda>(k, ob). Obj (assign (enc ob) ''key'' (kenc k)))
                                      (filter (\<lambda>(k, ob). \<not> cmpl k) (zip keys objs))))])]\<rparr>]
         \<and> called (putAll E this keys objs cb) = []
         \<and> raised (putAll E this keys objs cb) = None
         \<and> deliver (putAll E this keys objs cb) err res body that =
             [invoke cb (if carries_error body then [property body ''error'', Null]
                         else [err, body]) that]"
proof -
  note loop = putAll_loop_buckets [OF assms, of "[]" "[]"]
  from assms(1) show ?thesis
    by (simp add: putAll_def loop request_makeReq deliver_def respond_makeReq
                  MODE_NON_TRANSACTIONAL_def)
qed

theorem putAll_partitions_by_completeness_witness:
  "length [Arr [Str ''Kind'', Num 1], Arr [Str ''Kind'', Null]]
     = length [Obj [(''a'', Num 2)], Obj [(''b'', Str ''x'')]]
   \<and> entity_isKeyComplete plain_codec (Arr [Str ''Kind'', Num 1]) = Inr True
   \<and> entity_isKeyComplete plain_codec (Arr [Str ''Kind'', Null]) = Inr False
   \<and> map request
       (sent (putAll plain_codec (Transaction ''s~abc'')
                [Arr [Str ''Kind'', Num 1], Arr [Str ''Kind'', Null]]
                [Obj [(''a'', Num 2)], Obj [(''b'', Str ''x'')]] (Fn 0)))
     = [\<lparr>http_method = ''POST'',
         uri = ''https://www.googleapis.com/datastore/v1beta2/datasets/s~abc/commit'',
         json = Obj [(''mode'', Str ''NON_TRANSACTIONAL''),
                     (''mutation'',
                      Obj [(''update'',
                            Arr [Obj [(''property'', Obj [(''a'', Num 2)]),
                                      (''key'',
                                       Obj [(''partitionId'', Obj [(''datasetId'', Null)]),
                                            (''path'', Arr [Str ''Kind'', Num 1])])]]),
                           (''insertAutoId'',
                            Arr [Obj [(''property'', Obj [(''b'', Str ''x'')]),
                                      (''key'',
                                       Obj [(''partitionId'', Obj [(''datasetId'', Null)]),
                                            (''path'', Arr [Str ''Kind'', Null])])]])])]\<rparr>]
   \<and> deliver (putAll plain_codec (Transaction ''s~abc'')
                [Arr [Str ''Kind'', Num 1], Arr [Str ''Kind'', Null]]
                [Obj [(''a'', Num 2)], Obj [(''b'', Str ''x'')]] (Fn 0))
        Null Null (Obj [(''mutationResult'', Obj [(''indexUpdates'', Num 2)])])
        (Transaction ''s~abc'')
     = [\<lparr>after = Transaction ''s~abc'',
         calls = [(0, [Null, Obj [(''mutationResult'', Obj [(''indexUpdates'', Num 2)])]])],
         thrown = None\<rparr>]"
proof -
  let ?keys = "[Arr [Str ''Kind'', Num 1], Arr [Str ''Kind'', Null]]"
  let ?objs = "[Obj [(''a'', Num 2)], Obj [(''b'', Str ''x'')]]"
  let ?T = "Transaction ''s~abc''"
  let ?body = "Obj [(''mutationResult'', Obj [(''indexUpdates'', Num 2)])]"
  have h1: "length ?keys = length ?objs" by simp
  have h2: "\<forall>ob\<in>set ?objs. entity_entityToEntityProto plain_codec ob = Inr ((\<lambda>ob. [(''property'', ob)]) ob)"
    by (simp add: plain_codec_def)
  have h3: "\<forall>k\<in>set ?keys. entity_keyToKeyProto plain_codec (id' ?T) k =
               Inr ((\<lambda>k. Obj [(''partitionId'', Obj [(''datasetId'', Null)]), (''path'', k)]) k)"
    by (simp add: plain_codec_def Transaction_def)
  have h4: "\<forall>k\<in>set ?keys. entity_isKeyComplete plain_codec k = Inr (holds_no_null k)"
    by (simp add: plain_codec_def)
  have c: "entity_isKeyComplete plain_codec (Arr [Str ''Kind'', Num 1]) = Inr True
         \<and> entity_isKeyComplete plain_codec (Arr [Str ''Kind'', Null]) = Inr False"
    by (simp add: plain_codec_def)
  from putAll_partitions_by_completeness [OF h1 h2 h3 h4, of "Fn 0" Null Null ?body ?T] c
  show ?thesis
    by (simp add: DATASTORE_BASE_URL_def Transaction_def carries_error_def)
qed

section \<open>The dataset id handed to the codec\<close>

text \<open>
  The operations consult \<^verbatim>\<open>keyToKeyProto\<close> at one first argument only: \<^verbatim>\<open>getAll\<close> and
  \<^verbatim>\<open>delAll\<close> at the global object's \<^verbatim>\<open>id\<close>, \<^verbatim>\<open>putAll\<close> at the transaction's \<^verbatim>\<open>id\<close>,
  \<^verbatim>\<open>Dataset.allocateIds\<close> at the dataset's \<^verbatim>\<open>id\<close>.
\<close>

lemma forEach_key_first_argument:
  "global_id g = d \<Longrightarrow>
   forEach_key (E\<lparr>entity_keyToKeyProto := (\<lambda>x. entity_keyToKeyProto E d)\<rparr>) g keys
     = forEach_key E g keys"
  by (induction keys arbitrary: g) (simp_all split: sum.splits)

lemma putAll_loop_first_argument:
  "putAll_loop (E\<lparr>entity_keyToKeyProto := (\<lambda>d. entity_keyToKeyProto E (id' this))\<rparr>)
      this keys objs upd ins
     = putAll_loop E this keys objs upd ins"
  by (induction keys arbitrary: objs upd ins) (simp_all split: sum.splits)

lemma allocateIds_passes_dataset_id:
  "map (\<lambda>p. json (request p))
     (sent (allocateIds plain_codec
              \<lparr>dataset_id = ''s~abc'', transaction = Transaction ''s~abc''\<rparr>
              (Arr [Str ''Kind'', Null]) 2 (Fn 0)))
     = [Obj [(''keys'',
              Arr [Obj [(''partitionId'', Obj [(''datasetId'', Str ''s~abc'')]),
                        (''path'', Arr [Str ''Kind'', Null])],
                   Obj [(''partitionId'', Obj [(''datasetId'', Str ''s~abc'')]),
                        (''path'', Arr [Str ''Kind'', Null])]])]]"
  by (simp add: allocateIds_def plain_codec_def request_makeReq eval_nat_numeral)

text \<open>
  C3. When \<^verbatim>\<open>getAll\<close>, \<^verbatim>\<open>putAll\<close> or \<^verbatim>\<open>delAll\<close> encodes a key, the first argument of
  \<^verbatim>\<open>keyToKeyProto\<close> should be the coordinator's dataset id. On a new transaction for the
  dataset \<^verbatim>\<open>s~abc\<close> the code passes \<^verbatim>\<open>this.id\<close> instead: in \<^verbatim>\<open>putAll\<close> the transaction
  id, which is \<^verbatim>\<open>null\<close>, and in \<^verbatim>\<open>getAll\<close> and \<^verbatim>\<open>delAll\<close> the global object's \<^verbatim>\<open>id\<close>,
  which is \<^verbatim>\<open>undefined\<close>. The key protos in the requests show the argument received.
\<close>

theorem coordinator_passes_id_not_dataset_id:
  "map (\<lambda>p. json (request p))
     (sent (putAll plain_codec (Transaction ''s~abc'')
              [Arr [Str ''Kind'', Num 1]] [Obj [(''a'', Num 2)]] (Fn 0)))
     = [Obj [(''mode'', Str ''NON_TRANSACTIONAL''),
             (''mutation'',
              Obj [(''update'',
                    Arr [Obj [(''property'', Obj [(''a'', Num 2)]),
                              (''key'',
                               Obj [(''partitionId'', Obj [(''datasetId'', Null)]),
                                    (''path'', Arr [Str ''Kind'', Num 1])])]]),
                   (''insertAutoId'', Arr [])])]]
   \<and> map (\<lambda>p. json (request p))
       (sent (snd (getAll plain_codec \<lparr>global_id = Undefined, keysProto = []\<rparr>
                     (Transaction ''s~abc'') [Arr [Str ''Kind'', Num 1]] (Fn 0))))
     = [Obj [(''keys'',
              Arr [Obj [(''partitionId'', Obj [(''datasetId'', Undefined)]),
                        (''path'', Arr [Str ''Kind'', Num 1])]])]]
   \<and> map (\<lambda>p. json (request p))
       (sent (snd (delAll plain_codec \<lparr>global_id = Undefined, keysProto = []\<rparr>
                     (Transaction ''s~abc'') [Arr [Str ''Kind'', Num 1]] (Fn 0))))
     = [Obj [(''mode'', Str ''NON_TRANSACTIONAL''),
             (''mutation'',
              Obj [(''delete'',
                    Arr [Obj [(''partitionId'', Obj [(''datasetId'', Undefined)]),
                              (''path'', Arr [Str ''Kind'', Num 1])]])])]]"
  by (simp add: putAll_def getAll_def delAll_def plain_codec_def Transaction_def
                request_makeReq MODE_NON_TRANSACTIONAL_def)

section \<open>Omitted callbacks\<close>

text \<open>
  \<^verbatim>\<open>begin\<close>, \<^verbatim>\<open>commit\<close>, \<^verbatim>\<open>rollback\<close> and \<^verbatim>\<open>delAll\<close> guard every call of the
  callback; \<^verbatim>\<open>putAll\<close> guards none; \<^verbatim>\<open>getAll\<close> guards the call on its success path
  and not the one on its error path.
\<close>

lemma delAll_handler_never_throws:
  "list_all (\<lambda>r. thrown r = None) (deliver (snd (delAll E g this keys cb)) err res body that)"
  by (simp add: delAll_def deliver_def threw_def respond_makeReq
           split: prod.splits option.splits)

lemma guarded_handlers_never_throw:
  "map thrown (deliver (begin' this cb) err res body that) = [None]
   \<and> map thrown (deliver (commit this cb) err res body that) = [None]
   \<and> map thrown (deliver (rollback this cb) err res body that) = [None]"
  by (simp add: begin_reaction commit_reaction rollback_reaction)

lemma putAll_without_callback_throws:
  "list_all (\<lambda>r. thrown r = Some (TypeError ''callback is not a function''))
     (deliver (putAll E this keys objs Omitted) err res body that)"
  by (auto simp: putAll_def deliver_def threw_def respond_makeReq
           split: sum.splits prod.splits)

lemma getAll_error_path_unguarded:
  "carries_error body \<or> truthy err \<Longrightarrow>
   list_all (\<lambda>r. thrown r = Some (TypeError ''callback is not a function''))
     (deliver (snd (getAll E g this keys Omitted)) err res body that)"
  by (auto simp: getAll_def deliver_def threw_def respond_makeReq getAll_handler_def
                 carries_error_def split: prod.splits option.splits)

text \<open>
  C10. \<^verbatim>\<open>putAll\<close> calls its callback unconditionally, while \<^verbatim>\<open>begin\<close>, \<^verbatim>\<open>getAll\<close>,
  \<^verbatim>\<open>delAll\<close>, \<^verbatim>\<open>commit\<close> and \<^verbatim>\<open>rollback\<close> should call it only if one was given. In
  the code \<^verbatim>\<open>getAll\<close> without a callback is safe when the lookup succeeds, but when the
  response is an error its handler runs \<^verbatim>\<open>return callback(err)\<close> and throws a TypeError.
\<close>

theorem getAll_error_without_callback_throws:
  "deliver (snd (getAll plain_codec \<lparr>global_id = Undefined, keysProto = []\<rparr>
                   (Transaction ''s~abc'') [Arr [Str ''Kind'', Num 1]] Omitted))
      (Str ''reset'') Null Undefined (Transaction ''s~abc'')
     = [\<lparr>after = Transaction ''s~abc'', calls = [],
         thrown = Some (TypeError ''callback is not a function'')\<rparr>]
   \<and> deliver (snd (getAll plain_codec \<lparr>global_id = Undefined, keysProto = []\<rparr>
                   (Transaction ''s~abc'') [Arr [Str ''Kind'', Num 1]] Omitted))
      Null Null (Obj [(''found'', Arr [])]) (Transaction ''s~abc'')
     = [\<lparr>after = Transaction ''s~abc'', calls = [], thrown = None\<rparr>]"
  by (simp add: getAll_def plain_codec_def deliver_def respond_makeReq getAll_handler_def
                carries_error_def)

section \<open>Round trips of the codec\<close>

lemma value_roundtrip:
  "valueToProto v = Inr w \<Longrightarrow> valueFromProto w = v"
  "valuesToProto vs = Inr ws \<Longrightarrow> valuesFromProto ws = vs"
  "propertiesToProto ps = Inr qs \<Longrightarrow> propertiesFromProto qs = ps"
  by (induction v and vs and ps arbitrary: w and ws and qs
      rule: valueToProto_valuesToProto_propertiesToProto.induct)
     (auto split: sum.splits if_splits)

lemma supported_encodes:
  "supported v \<Longrightarrow> \<exists>w. valueToProto v = Inr w"
  "supported_all vs \<Longrightarrow> \<exists>ws. valuesToProto vs = Inr ws"
  "supported_entity ps \<Longrightarrow> \<exists>qs. propertiesToProto ps = Inr qs"
  by (induction v and vs and ps rule: supported_supported_all_supported_entity.induct)
     (auto split: sum.splits)

lemma encodes_supported:
  "valueToProto v = Inr w \<Longrightarrow> supported v"
  "valuesToProto vs = Inr ws \<Longrightarrow> supported_all vs"
  "propertiesToProto ps = Inr qs \<Longrightarrow> supported_entity ps"
  by (induction v and vs and ps arbitrary: w and ws and qs
      rule: valueToProto_valuesToProto_propertiesToProto.induct)
     (auto split: sum.splits if_splits)

lemma segment_roundtrip: "segmentFromElement (segmentToElement s) = s"
  by (cases s rule: segmentToElement.cases) (simp_all add: segmentFromElement_def)

lemma complete_key_encodes:
  "dsid \<noteq> [] \<Longrightarrow> isKeyComplete k \<Longrightarrow>
     keyToKeyProto dsid k = Inr \<lparr>partition_datasetId = dsid, path = map segmentToElement k\<rparr>"
  by (simp add: keyToKeyProto_def isKeyComplete_def)

lemma key_roundtrip:
  "keyToKeyProto dsid k = Inr p \<Longrightarrow> keyFromKeyProto p = k"
  by (auto simp: keyToKeyProto_def keyFromKeyProto_def segment_roundtrip comp_def
           split: if_splits)

lemma property_names_kept:
  "propertiesToProto ps = Inr qs \<Longrightarrow> map fst qs = map fst ps"
  by (induction ps arbitrary: qs) (auto split: sum.splits)

text \<open>
  C5. For every complete key \<open>k\<close> and every non-empty dataset id, \<^verbatim>\<open>keyToKeyProto\<close>
  succeeds and \<^verbatim>\<open>keyFromKeyProto\<close> gives \<open>k\<close> back; for every entity whose property values
  all have supported types, \<^verbatim>\<open>entityToEntityProto\<close> succeeds, keeps the property names,
  and \<^verbatim>\<open>entityFromEntityProto\<close> gives the entity back, every name and value.
\<close>

theorem codec_roundtrip:
  "(dsid \<noteq> [] \<and> isKeyComplete k \<longrightarrow>
      (\<exists>p. keyToKeyProto dsid k = Inr p \<and> keyFromKeyProto p = k))
   \<and> (supported_entity e \<longrightarrow>
      (\<exists>p. entityToEntityProto e = Inr p \<and> map fst p = map fst e
           \<and> entityFromEntityProto p = e))"
proof (intro conjI impI)
  assume "dsid \<noteq> [] \<and> isKeyComplete k"
  then have "keyToKeyProto dsid k =
      Inr \<lparr>partition_datasetId = dsid, path = map segmentToElement k\<rparr>"
    by (simp add: complete_key_encodes)
  then show "\<exists>p. keyToKeyProto dsid k = Inr p \<and> keyFromKeyProto p = k"
    using key_roundtrip by blast
next
  assume "supported_entity e"
  then obtain qs where qs: "propertiesToProto e = Inr qs"
    using supported_encodes(3) by blast
  then have "propertiesFromProto qs = e" and "map fst qs = map fst e"
    by (simp_all add: value_roundtrip(3) property_names_kept)
  with qs show "\<exists>p. entityToEntityProto e = Inr p \<and> map fst p = map fst e
      \<and> entityFromEntityProto p = e"
    by (simp add: entityToEntityProto_def entityFromEntityProto_def)
qed

theorem codec_roundtrip_witness:
  "''s~abc'' \<noteq> [] \<and> isKeyComplete [(''Company'', Id 1), (''Employee'', Name ''ann'')]
   \<and> keyToKeyProto ''s~abc'' [(''Company'', Id 1), (''Employee'', Name ''ann'')]
       = Inr \<lparr>partition_datasetId = ''s~abc'',
              path = [\<lparr>kind = ''Company'', elem_id = Some 1, elem_name = None\<rparr>,
                      \<lparr>kind = ''Employee'', elem_id = None, elem_name = Some ''ann''\<rparr>]\<rparr>
   \<and> keyFromKeyProto
        \<lparr>partition_datasetId = ''s~abc'',
         path = [\<lparr>kind = ''Company'', elem_id = Some 1, elem_name = None\<rparr>,
                 \<lparr>kind = ''Employee'', elem_id = None, elem_name = Some ''ann''\<rparr>]\<rparr>
       = [(''Company'', Id 1), (''Employee'', Name ''ann'')]
   \<and> supported_entity
        [(''name'', LString ''ann''), (''age'', LNumber 41), (''rate'', LNumber (3 / 2)),
         (''tags'', LArray [LString ''a'', LBoolean True]),
         (''address'', LMapping [(''since'', LTimestamp 1400000000000000)])]
   \<and> entityToEntityProto
        [(''name'', LString ''ann''), (''age'', LNumber 41), (''rate'', LNumber (3 / 2)),
         (''tags'', LArray [LString ''a'', LBoolean True]),
         (''address'', LMapping [(''since'', LTimestamp 1400000000000000)])]
       = Inr [(''name'', StringValue ''ann''), (''age'', IntegerValue 41),
              (''rate'', DoubleValue (3 / 2)),
              (''tags'', ListValue [StringValue ''a'', BooleanValue True]),
              (''address'', EntityValue [(''since'', TimestampValue 1400000000000000)])]
   \<and> entityFromEntityProto
        [(''name'', StringValue ''ann''), (''age'', IntegerValue 41),
         (''rate'', DoubleValue (3 / 2)),
         (''tags'', ListValue [StringValue ''a'', BooleanValue True]),
         (''address'', EntityValue [(''since'', TimestampValue 1400000000000000)])]
       = [(''name'', LString ''ann''), (''age'', LNumber 41), (''rate'', LNumber (3 / 2)),
          (''tags'', LArray [LString ''a'', LBoolean True]),
          (''address'', LMapping [(''since'', LTimestamp 1400000000000000)])]"
proof -
  let ?k = "[(''Company'', Id 1), (''Employee'', Name ''ann'')]"
  let ?e = "[(''name'', LString ''ann''), (''age'', LNumber 41), (''rate'', LNumber (3 / 2)),
         (''tags'', LArray [LString ''a'', LBoolean True]),
         (''address'', LMapping [(''since'', LTimestamp 1400000000000000)])]"
  have hk: "''s~abc'' \<noteq> [] \<and> isKeyComplete ?k"
    by (simp add: isKeyComplete_def)
  have he: "supported_entity ?e"
    by simp
  have fl: "\<lfloor>3 / 2 :: rat\<rfloor> = 1"
    by (simp add: floor_eq_iff)
  have enc_k: "keyToKeyProto ''s~abc'' ?k
       = Inr \<lparr>partition_datasetId = ''s~abc'',
              path = [\<lparr>kind = ''Company'', elem_id = Some 1, elem_name = None\<rparr>,
                      \<lparr>kind = ''Employee'', elem_id = None, elem_name = Some ''ann''\<rparr>]\<rparr>"
    by (simp add: keyToKeyProto_def)
  have enc_e: "entityToEntityProto ?e
       = Inr [(''name'', StringValue ''ann''), (''age'', IntegerValue 41),
              (''rate'', DoubleValue (3 / 2)),
              (''tags'', ListValue [StringValue ''a'', BooleanValue True]),
              (''address'', EntityValue [(''since'', TimestampValue 1400000000000000)])]"
    by (simp add: entityToEntityProto_def fl)
  from codec_roundtrip [of "''s~abc''" ?k ?e] hk he enc_k enc_e
  show ?thesis by auto
qed

end
